theory Spec2Isabelle
  imports Complex_Main
begin

section \<open>The colour-difficulty generator of ColorChallenge\<close>

text \<open>
  The generator is the callback \<open>generateColors\<close> of the component \<open>App\<close>. It reads the
  state variables \<open>level\<close> and \<open>difficulty\<close>, calls \<open>Math.random()\<close> five or six times and
  stores a new grid, a new target index and a new \<open>diffInfo\<close>.

  Numbers. A JavaScript number is an IEEE double; the embedding computes with \<open>real\<close>, so
  \<open>Math.pow\<close>, \<open>*\<close>, \<open>+\<close> are the exact operations and rounding error is not modelled.
  For levels of at least 1 the doubles follow the model up to rounding. Far below level 1
  (from level -8482 of \<open>HARD\<close>, -13784 of \<open>NORMAL\<close>, -23197 of \<open>EASY\<close> downwards) line 139
  overflows to \<open>Infinity\<close> in the doubles and the model does not follow: there a theorem
  stated for every level speaks of the model only. The theorem on the levels below 1 states
  only what does not depend on the level.
  \<open>level\<close> is the integer counter of the component (it starts at 1 and is incremented),
  an \<open>int\<close> here.

  Randomness. \<open>Math.random()\<close> is an ambient generator. The embedding takes the sequence of
  its results as a function \<open>rnd :: nat \<Rightarrow> real\<close>: \<open>rnd k\<close> is what the \<open>k\<close>-th call made
  by one run of \<open>generateColors\<close> returns (\<open>k = 0\<close> for the first call). Every result of
  \<open>Math.random()\<close> lies in \<open>[0, 1)\<close>; the theorems assume that of the draws as \<open>unitDraws\<close>.

  Colours. The source builds the CSS strings \<open>hsl(h, s%, l%)\<close> from three numbers. Two such
  strings are equal exactly when the three numbers are, so a colour is the record of the
  three numbers.
\<close>

subsection \<open>Types\<close>

datatype Difficulty = EASY | NORMAL | HARD

record HSL =
  hsl_h :: real
  hsl_s :: real
  hsl_l :: real

record Cell =
  color :: HSL
  isTarget :: bool

record ColorInfo =
  base :: HSL
  target :: HSL
  diff :: real

text \<open>The three state variables that \<open>generateColors\<close> sets.\<close>

record Round =
  grid :: "Cell list"
  targetIndex :: int
  diffInfo :: ColorInfo

datatype Channel = Hue | Saturation | Lightness

datatype error = InvalidArgument

subsection \<open>Constants and arithmetic of the host language\<close>

definition GRID_SIZE :: nat where
  "GRID_SIZE = 5"

text \<open>\<open>a % b\<close> of JavaScript: the remainder has the sign of the dividend.\<close>

definition trunc :: "real \<Rightarrow> int" where
  "trunc x = (if 0 \<le> x then \<lfloor>x\<rfloor> else \<lceil>x\<rceil>)"

definition js_rem :: "real \<Rightarrow> real \<Rightarrow> real" where
  "js_rem a b = a - b * of_int (trunc (a / b))"

text \<open>
  \<open>Number(x.toFixed(2))\<close>: the multiple of \<open>1/100\<close> nearest to \<open>x\<close>, the larger one of two
  equally near, with the sign treated apart.
\<close>

definition toFixed2 :: "real \<Rightarrow> real" where
  "toFixed2 x =
     (if x < 0 then - (of_int \<lfloor>(- x) * 100 + 1 / 2\<rfloor> / 100)
      else of_int \<lfloor>x * 100 + 1 / 2\<rfloor> / 100)"

subsection \<open>The generator\<close>

text \<open>
  Lines 133 to 137: \<open>baseDiff\<close> and \<open>decay\<close> start at 15 and 0.95 and are overwritten for
  \<open>EASY\<close> and for \<open>HARD\<close>.
\<close>

definition baseDiff :: "Difficulty \<Rightarrow> real" where
  "baseDiff difficulty =
     (let b = 15;
          b = (if difficulty = EASY then 25 else b);
          b = (if difficulty = HARD then 12 else b)
      in b)"

definition decay :: "Difficulty \<Rightarrow> real" where
  "decay difficulty =
     (let d = 95 / 100;
          d = (if difficulty = EASY then 97 / 100 else d);
          d = (if difficulty = HARD then 92 / 100 else d)
      in d)"

text \<open>Line 139: \<open>Math.max(1, baseDiff * Math.pow(decay, level - 1))\<close>.\<close>

definition currentDiff :: "int \<Rightarrow> Difficulty \<Rightarrow> real" where
  "currentDiff level difficulty =
     max 1 (baseDiff difficulty * (decay difficulty powi (level - 1)))"

text \<open>
  Lines 125 to 164. The draws are numbered in the order of the calls: 0, 1, 2 for the base
  colour, 3 for \<open>shiftType\<close>, 4 for the sign (made only in the saturation and lightness
  branches), and the next one (4 after a hue shift, 5 otherwise) for the target index.
\<close>

definition generateColors :: "int \<Rightarrow> Difficulty \<Rightarrow> (nat \<Rightarrow> real) \<Rightarrow> Round" where
  "generateColors level difficulty rnd =
     (let h = of_int \<lfloor>rnd 0 * 360\<rfloor>;
          s = of_int \<lfloor>rnd 1 * 40\<rfloor> + 40;
          l = of_int \<lfloor>rnd 2 * 40\<rfloor> + 30;
          cd = currentDiff level difficulty;
          shiftType = rnd 3;
          (targetH, targetS, targetL, k) =
            (if shiftType < 33 / 100 then
               (js_rem (h + cd) 360, s, l, 4)
             else if shiftType < 66 / 100 then
               (h, min 100 (max 0 (s + (if rnd 4 > 1 / 2 then cd else - cd))), l, 5)
             else
               (h, s, min 100 (max 0 (l + (if rnd 4 > 1 / 2 then cd else - cd))), 5));
          baseColor = \<lparr>hsl_h = h, hsl_s = s, hsl_l = l\<rparr>;
          targetColor = \<lparr>hsl_h = targetH, hsl_s = targetS, hsl_l = targetL\<rparr>;
          newTargetIndex = \<lfloor>rnd k * real (GRID_SIZE * GRID_SIZE)\<rfloor>;
          newGrid = map (\<lambda>i. \<lparr>color = (if int i = newTargetIndex then targetColor else baseColor),
                                  isTarget = (int i = newTargetIndex)\<rparr>)
                        [0 ..< GRID_SIZE * GRID_SIZE]
      in \<lparr>grid = newGrid, targetIndex = newTargetIndex,
          diffInfo = \<lparr>base = baseColor, target = targetColor, diff = toFixed2 cd\<rparr>\<rparr>)"

text \<open>
  The source has no \<open>throw\<close> and calls nothing that throws on numbers: every call of
  \<open>generateColors\<close> returns. \<open>generate\<close> is the same call seen as a fallible one.
\<close>

definition generate :: "int \<Rightarrow> Difficulty \<Rightarrow> (nat \<Rightarrow> real) \<Rightarrow> error + Round" where
  "generate level difficulty rnd = Inr (generateColors level difficulty rnd)"

subsection \<open>Vocabulary of the properties\<close>

text \<open>Every result of \<open>Math.random()\<close> lies in \<open>[0, 1)\<close>.\<close>

definition unitDraws :: "(nat \<Rightarrow> real) \<Rightarrow> bool" where
  "unitDraws rnd = (\<forall>k. 0 \<le> rnd k \<and> rnd k < 1)"

text \<open>The branch of lines 145 to 151 that a value of \<open>shiftType\<close> takes.\<close>

definition shiftChannel :: "real \<Rightarrow> Channel" where
  "shiftChannel shiftType =
     (if shiftType < 33 / 100 then Hue
      else if shiftType < 66 / 100 then Saturation
      else Lightness)"

text \<open>
  The specification's words, to compare the code with: the circular \<open>mod\<close> on hues, the
  \<open>clamp\<close> of saturation and lightness, and the ranges of a colour.
\<close>

definition spec_mod :: "real \<Rightarrow> real \<Rightarrow> real" where
  "spec_mod x m = x - m * of_int \<lfloor>x / m\<rfloor>"

definition spec_clamp :: "real \<Rightarrow> real \<Rightarrow> real \<Rightarrow> real" where
  "spec_clamp x lo hi = (if x < lo then lo else if hi < x then hi else x)"

definition validHSL :: "HSL \<Rightarrow> bool" where
  "validHSL c = (0 \<le> hsl_h c \<and> hsl_h c < 360 \<and> 0 \<le> hsl_s c \<and> hsl_s c \<le> 100
                 \<and> 0 \<le> hsl_l c \<and> hsl_l c \<le> 100)"

text \<open>
  Sequences of draws for the examples: \<open>sat78\<close> gives the saturation 78, a saturation
  shift and the sign "add"; \<open>shiftDraw u\<close> gives the value \<open>u\<close> to \<open>shiftType\<close> and 1/2 to
  every other draw.
\<close>

definition sat78 :: "nat \<Rightarrow> real" where
  "sat78 k = (if k = 1 then 96 / 100 else if k = 4 then 7 / 10 else 1 / 2)"

definition shiftDraw :: "real \<Rightarrow> nat \<Rightarrow> real" where
  "shiftDraw u k = (if k = 3 then u else 1 / 2)"

subsection \<open>What one run stores\<close>

lemma base_generateColors:
  "base (diffInfo (generateColors level d rnd)) =
     \<lparr>hsl_h = of_int \<lfloor>rnd 0 * 360\<rfloor>, hsl_s = of_int \<lfloor>rnd 1 * 40\<rfloor> + 40,
      hsl_l = of_int \<lfloor>rnd 2 * 40\<rfloor> + 30\<rparr>"
  by (simp add: generateColors_def Let_def split: prod.splits)

lemma target_generateColors:
  "target (diffInfo (generateColors level d rnd)) =
     (let b = base (diffInfo (generateColors level d rnd));
          cd = currentDiff level d
      in case shiftChannel (rnd 3) of
           Hue \<Rightarrow> b\<lparr>hsl_h := js_rem (hsl_h b + cd) 360\<rparr>
         | Saturation \<Rightarrow>
             b\<lparr>hsl_s := min 100 (max 0 (hsl_s b + (if rnd 4 > 1 / 2 then cd else - cd)))\<rparr>
         | Lightness \<Rightarrow>
             b\<lparr>hsl_l := min 100 (max 0 (hsl_l b + (if rnd 4 > 1 / 2 then cd else - cd)))\<rparr>)"
  by (simp add: generateColors_def shiftChannel_def Let_def split: prod.splits)

lemma diff_generateColors:
  "diff (diffInfo (generateColors level d rnd)) = toFixed2 (currentDiff level d)"
  by (simp add: generateColors_def Let_def split: prod.splits)

lemma targetIndex_generateColors:
  "targetIndex (generateColors level d rnd) =
     \<lfloor>rnd (if rnd 3 < 33 / 100 then 4 else 5) * 25\<rfloor>"
  by (simp add: generateColors_def GRID_SIZE_def Let_def split: prod.splits)

lemma grid_generateColors:
  "grid (generateColors level d rnd) =
     (let r = generateColors level d rnd
      in map (\<lambda>i. \<lparr>color = (if int i = targetIndex r then target (diffInfo r)
                               else base (diffInfo r)),
                      isTarget = (int i = targetIndex r)\<rparr>) [0 ..< 25])"
  by (simp add: generateColors_def GRID_SIZE_def Let_def split: prod.splits)

subsection \<open>Bounds on the applied difference\<close>

lemma decay_bounds: "0 < decay d" "decay d < 1"
  by (cases d; simp add: decay_def)+

lemma baseDiff_bounds: "1 \<le> baseDiff d" "baseDiff d \<le> 25"
  by (cases d; simp add: baseDiff_def)+

lemma currentDiff_ge_1: "1 \<le> currentDiff level d"
  by (simp add: currentDiff_def)

lemma currentDiff_nat:
  "1 \<le> level \<Longrightarrow> currentDiff level d = max 1 (baseDiff d * decay d ^ nat (level - 1))"
  by (simp add: currentDiff_def power_int_def)

lemma currentDiff_le_baseDiff:
  assumes "1 \<le> level"
  shows "currentDiff level d \<le> baseDiff d"
proof -
  have "decay d ^ nat (level - 1) \<le> 1"
    using decay_bounds [of d] by (simp add: power_le_one)
  then have "baseDiff d * decay d ^ nat (level - 1) \<le> baseDiff d * 1"
    using baseDiff_bounds(1) [of d] by (intro mult_left_mono) simp_all
  then show ?thesis
    using assms baseDiff_bounds(1) [of d] by (simp add: currentDiff_nat)
qed

lemma currentDiff_le_25: "1 \<le> level \<Longrightarrow> currentDiff level d \<le> 25"
  using currentDiff_le_baseDiff [of level d] baseDiff_bounds(2) [of d] by simp

lemma currentDiff_50_HARD: "currentDiff 50 HARD = 1"
proof -
  have "(23 / 25 :: real) ^ 49 \<le> 1 / 12"
    by (simp add: power_divide)
  then show ?thesis
    by (simp add: currentDiff_def baseDiff_def decay_def)
qed

subsection \<open>Draws, remainders and clamping\<close>

lemma floor_draw:
  assumes "0 \<le> u" and "u < 1" and "0 < n"
  shows "0 \<le> \<lfloor>u * real_of_int n\<rfloor>" and "\<lfloor>u * real_of_int n\<rfloor> < n"
proof -
  show "0 \<le> \<lfloor>u * real_of_int n\<rfloor>"
    using assms by simp
  have "u * real_of_int n < 1 * real_of_int n"
    using assms by (intro mult_strict_right_mono) simp_all
  then show "\<lfloor>u * real_of_int n\<rfloor> < n"
    by (simp add: floor_less_iff)
qed

lemma js_rem_nonneg: "0 \<le> a \<Longrightarrow> 0 < b \<Longrightarrow> js_rem a b = spec_mod a b"
  by (simp add: js_rem_def spec_mod_def trunc_def)

lemma spec_mod_range:
  assumes "0 < m"
  shows "0 \<le> spec_mod x m" and "spec_mod x m < m"
proof -
  define q where "q = real_of_int \<lfloor>x / m\<rfloor>"
  have lo: "q \<le> x / m" and hi: "x / m < q + 1"
    unfolding q_def by linarith+
  have "m * q \<le> m * (x / m)"
    using assms lo by (intro mult_left_mono) simp_all
  then have "m * q \<le> x"
    using assms by simp
  then show "0 \<le> spec_mod x m"
    by (simp add: spec_mod_def q_def)
  have "m * (x / m) < m * (q + 1)"
    using assms hi by (intro mult_strict_left_mono) simp_all
  then have "x < m * q + m"
    using assms by (simp add: algebra_simps)
  then show "spec_mod x m < m"
    by (simp add: spec_mod_def q_def)
qed

lemma spec_mod_shift_neq:
  assumes "0 < c" and "c < m"
  shows "spec_mod (x + c) m \<noteq> x"
proof
  assume "spec_mod (x + c) m = x"
  then have eq: "c = m * real_of_int \<lfloor>(x + c) / m\<rfloor>"
    by (simp add: spec_mod_def)
  show False
  proof (cases "\<lfloor>(x + c) / m\<rfloor> \<le> 0")
    case True
    then have "real_of_int \<lfloor>(x + c) / m\<rfloor> \<le> 0" by simp
    then have "m * real_of_int \<lfloor>(x + c) / m\<rfloor> \<le> 0"
      using assms by (simp add: mult_le_0_iff)
    with eq assms show False by simp
  next
    case False
    then have "1 \<le> \<lfloor>(x + c) / m\<rfloor>" by simp
    then have "1 \<le> real_of_int \<lfloor>(x + c) / m\<rfloor>" by linarith
    then have "m * 1 \<le> m * real_of_int \<lfloor>(x + c) / m\<rfloor>"
      using assms by (intro mult_left_mono) simp_all
    with eq assms show False by simp
  qed
qed

lemma clamp_code: "min 100 (max 0 x) = spec_clamp x 0 100"
  by (simp add: spec_clamp_def min_def max_def)

lemma base_ranges:
  fixes level :: int and d :: Difficulty and rnd :: "nat \<Rightarrow> real"
  assumes "unitDraws rnd"
  defines "b \<equiv> base (diffInfo (generateColors level d rnd))"
  shows "0 \<le> hsl_h b" "hsl_h b \<le> 359" "40 \<le> hsl_s b" "hsl_s b \<le> 79"
        "30 \<le> hsl_l b" "hsl_l b \<le> 69"
proof -
  have u: "0 \<le> rnd k" "rnd k < 1" for k
    using assms(1) by (simp_all add: unitDraws_def)
  have h: "0 \<le> \<lfloor>rnd 0 * 360\<rfloor>" "\<lfloor>rnd 0 * 360\<rfloor> < 360"
    using floor_draw [OF u(1) u(2), of 360 0] by simp_all
  have s: "0 \<le> \<lfloor>rnd 1 * 40\<rfloor>" "\<lfloor>rnd 1 * 40\<rfloor> < 40"
    using floor_draw [OF u(1) u(2), of 40 1] by simp_all
  have l: "0 \<le> \<lfloor>rnd 2 * 40\<rfloor>" "\<lfloor>rnd 2 * 40\<rfloor> < 40"
    using floor_draw [OF u(1) u(2), of 40 2] by simp_all
  show "0 \<le> hsl_h b" "hsl_h b \<le> 359"
    using h unfolding b_def base_generateColors by simp_all
  show "40 \<le> hsl_s b" "hsl_s b \<le> 79"
    using s unfolding b_def base_generateColors by simp_all
  show "30 \<le> hsl_l b" "hsl_l b \<le> 69"
    using l unfolding b_def base_generateColors by simp_all
qed

section \<open>The claims\<close>

text \<open>
  C2. For every level of at least 1 the applied difference is
  \<open>max(1, baseDelta * decay^(level - 1))\<close>, with 25 and 0.97 for \<open>EASY\<close>, 15 and 0.95 for
  \<open>NORMAL\<close>, 12 and 0.92 for \<open>HARD\<close>; at level 1 it is the base difference itself: 25, 15
  and 12.
\<close>

theorem applied_delta_formula:
  assumes "1 \<le> level"
  shows "currentDiff level EASY = max 1 (25 * (97 / 100) ^ nat (level - 1))
       \<and> currentDiff level NORMAL = max 1 (15 * (95 / 100) ^ nat (level - 1))
       \<and> currentDiff level HARD = max 1 (12 * (92 / 100) ^ nat (level - 1))
       \<and> currentDiff 1 EASY = 25 \<and> currentDiff 1 NORMAL = 15 \<and> currentDiff 1 HARD = 12"
  using assms by (simp add: currentDiff_nat) (simp add: baseDiff_def decay_def)

theorem applied_delta_formula_witness:
  "(1::int) \<le> 3 \<and> currentDiff 3 NORMAL = 5415 / 400 \<and> currentDiff 1 HARD = 12"
  using applied_delta_formula [of 3] by (simp add: power_numeral_reduce)

text \<open>
  C3. For a fixed tier the applied difference does not increase with the level, and at
  every level of at least 1, however large, it is at least 1, hence a number and not
  negative.
\<close>

theorem applied_delta_monotone:
  assumes "1 \<le> l1" and "l1 \<le> l2"
  shows "currentDiff l2 d \<le> currentDiff l1 d \<and> 1 \<le> currentDiff l2 d \<and> 0 \<le> currentDiff l2 d"
proof -
  have "nat (l1 - 1) \<le> nat (l2 - 1)"
    using assms by simp
  then have "decay d ^ nat (l2 - 1) \<le> decay d ^ nat (l1 - 1)"
    using decay_bounds [of d] by (intro power_decreasing) simp_all
  then have "baseDiff d * decay d ^ nat (l2 - 1) \<le> baseDiff d * decay d ^ nat (l1 - 1)"
    using baseDiff_bounds(1) [of d] by (intro mult_left_mono) simp_all
  then have "currentDiff l2 d \<le> currentDiff l1 d"
    using assms by (simp add: currentDiff_nat)
  moreover have "1 \<le> currentDiff l2 d"
    by (rule currentDiff_ge_1)
  ultimately show ?thesis by simp
qed

theorem applied_delta_monotone_witness:
  "(1::int) \<le> 1 \<and> (1::int) \<le> 50 \<and> currentDiff 50 HARD \<le> currentDiff 1 HARD
     \<and> 1 \<le> currentDiff 50 HARD \<and> 0 \<le> currentDiff 50 HARD"
  using applied_delta_monotone [of 1 50 HARD] by simp

lemma target_differs:
  fixes level :: int and d :: Difficulty and rnd :: "nat \<Rightarrow> real"
  assumes lv: "1 \<le> level" and u: "unitDraws rnd"
  shows "target (diffInfo (generateColors level d rnd)) \<noteq> base (diffInfo (generateColors level d rnd))"
proof -
  define b where "b = base (diffInfo (generateColors level d rnd))"
  define cd where "cd = currentDiff level d"
  have cd: "1 \<le> cd" "cd \<le> 25"
    using currentDiff_ge_1 [of level d] currentDiff_le_25 [OF lv, of d] by (simp_all add: cd_def)
  have bs: "40 \<le> hsl_s b" "hsl_s b \<le> 79" "30 \<le> hsl_l b" "hsl_l b \<le> 69" "0 \<le> hsl_h b"
    using base_ranges [OF u, of level d] by (simp_all add: b_def)
  have t: "target (diffInfo (generateColors level d rnd)) =
      (case shiftChannel (rnd 3) of
         Hue \<Rightarrow> b\<lparr>hsl_h := js_rem (hsl_h b + cd) 360\<rparr>
       | Saturation \<Rightarrow> b\<lparr>hsl_s := min 100 (max 0 (hsl_s b + (if rnd 4 > 1 / 2 then cd else - cd)))\<rparr>
       | Lightness \<Rightarrow> b\<lparr>hsl_l := min 100 (max 0 (hsl_l b + (if rnd 4 > 1 / 2 then cd else - cd)))\<rparr>)"
    unfolding b_def cd_def by (simp add: target_generateColors Let_def)
  show ?thesis
  proof (cases "shiftChannel (rnd 3)")
    case Hue
    have "js_rem (hsl_h b + cd) 360 = spec_mod (hsl_h b + cd) 360"
      using bs cd by (intro js_rem_nonneg) simp_all
    moreover have "spec_mod (hsl_h b + cd) 360 \<noteq> hsl_h b"
      using cd by (intro spec_mod_shift_neq) simp_all
    ultimately have "hsl_h (b\<lparr>hsl_h := js_rem (hsl_h b + cd) 360\<rparr>) \<noteq> hsl_h b"
      by simp
    then have "b\<lparr>hsl_h := js_rem (hsl_h b + cd) 360\<rparr> \<noteq> b"
      by metis
    then show ?thesis
      using Hue t by (simp add: b_def)
  next
    case Saturation
    have "min 100 (max 0 (hsl_s b + (if rnd 4 > 1 / 2 then cd else - cd))) \<noteq> hsl_s b"
      using bs cd by (simp add: min_def max_def)
    then have "hsl_s (b\<lparr>hsl_s := min 100 (max 0 (hsl_s b + (if rnd 4 > 1 / 2 then cd else - cd)))\<rparr>) \<noteq> hsl_s b"
      by simp
    then have "b\<lparr>hsl_s := min 100 (max 0 (hsl_s b + (if rnd 4 > 1 / 2 then cd else - cd)))\<rparr> \<noteq> b"
      by metis
    then show ?thesis
      using Saturation t by (simp add: b_def)
  next
    case Lightness
    have "min 100 (max 0 (hsl_l b + (if rnd 4 > 1 / 2 then cd else - cd))) \<noteq> hsl_l b"
      using bs cd by (simp add: min_def max_def)
    then have "hsl_l (b\<lparr>hsl_l := min 100 (max 0 (hsl_l b + (if rnd 4 > 1 / 2 then cd else - cd)))\<rparr>) \<noteq> hsl_l b"
      by simp
    then have "b\<lparr>hsl_l := min 100 (max 0 (hsl_l b + (if rnd 4 > 1 / 2 then cd else - cd)))\<rparr> \<noteq> b"
      by metis
    then show ?thesis
      using Lightness t by (simp add: b_def)
  qed
qed

lemma generateColors_cong:
  assumes "\<forall>k<6. rnd' k = rnd k"
  shows "generateColors level d rnd' = generateColors level d rnd"
proof -
  have "rnd' 0 = rnd 0" "rnd' 1 = rnd 1" "rnd' 2 = rnd 2" "rnd' 3 = rnd 3" "rnd' 4 = rnd 4"
       "rnd' 5 = rnd 5"
    using assms by simp_all
  then show ?thesis
    by (simp add: generateColors_def Let_def)
qed

text \<open>
  C1. For every level of at least 1, every tier and every sequence of draws, the base colour
  of the round differs from its target colour; and the round is a function of the level,
  the tier and the draws, of which the run reads at most the first six.
\<close>

theorem base_differs_from_target:
  assumes "1 \<le> level" and "unitDraws rnd"
  shows "base (diffInfo (generateColors level d rnd)) \<noteq> target (diffInfo (generateColors level d rnd))
       \<and> ((\<forall>k<6. rnd' k = rnd k) \<longrightarrow> generateColors level d rnd' = generateColors level d rnd)"
  using target_differs [OF assms, of d] generateColors_cong [of rnd' rnd level d] by metis

theorem base_differs_from_target_witness:
  "(1::int) \<le> 1 \<and> unitDraws (\<lambda>_. 1 / 2)
   \<and> base (diffInfo (generateColors 1 NORMAL (\<lambda>_. 1 / 2))) \<noteq> target (diffInfo (generateColors 1 NORMAL (\<lambda>_. 1 / 2)))
   \<and> generateColors 1 NORMAL (\<lambda>k. if k < 6 then 1 / 2 else 0) = generateColors 1 NORMAL (\<lambda>_. 1 / 2)"
proof -
  have u: "unitDraws (\<lambda>_. 1 / 2)"
    by (simp add: unitDraws_def)
  show ?thesis
    using u base_differs_from_target [of 1 "\<lambda>_. 1 / 2" NORMAL "\<lambda>k. if k < 6 then 1 / 2 else 0"]
    by simp
qed

lemma filter_eq_upt: "filter (\<lambda>i. i = n) [0 ..< m] = (if n < m then [n] else [])"
  by (induction m) auto

lemma targetIndex_range:
  assumes "unitDraws rnd"
  shows "0 \<le> targetIndex (generateColors level d rnd)"
    and "targetIndex (generateColors level d rnd) < 25"
proof -
  define k :: nat where "k = (if rnd 3 < 33 / 100 then 4 else 5)"
  have "0 \<le> rnd k" "rnd k < 1"
    using assms by (simp_all add: unitDraws_def)
  from floor_draw [OF this, of 25]
  have "0 \<le> \<lfloor>rnd k * 25\<rfloor>" "\<lfloor>rnd k * 25\<rfloor> < 25"
    by simp_all
  then show "0 \<le> targetIndex (generateColors level d rnd)"
    and "targetIndex (generateColors level d rnd) < 25"
    unfolding targetIndex_generateColors k_def by simp_all
qed

lemma grid_length: "length (grid (generateColors level d rnd)) = 25"
  by (simp add: grid_generateColors Let_def)

lemma grid_nth:
  assumes "i < 25"
  shows "grid (generateColors level d rnd) ! i =
     \<lparr>color = (if int i = targetIndex (generateColors level d rnd)
               then target (diffInfo (generateColors level d rnd))
               else base (diffInfo (generateColors level d rnd))),
      isTarget = (int i = targetIndex (generateColors level d rnd))\<rparr>"
  using assms by (simp add: grid_generateColors Let_def del: upt_rec_numeral)

lemma grid_targets:
  assumes "unitDraws rnd"
  shows "length (filter isTarget (grid (generateColors level d rnd))) = 1"
proof -
  define r where "r = generateColors level d rnd"
  define n where "n = nat (targetIndex r)"
  have n: "targetIndex r = int n" "n < 25"
    using targetIndex_range [OF assms, of level d] by (simp_all add: n_def r_def)
  have "filter isTarget (grid r) =
      map (\<lambda>i. \<lparr>color = (if int i = targetIndex r then target (diffInfo r) else base (diffInfo r)),
                  isTarget = (int i = targetIndex r)\<rparr>)
          (filter (\<lambda>i. i = n) [0 ..< 25])"
    unfolding r_def grid_generateColors Let_def filter_map
    by (simp add: comp_def n [unfolded r_def] del: upt_rec_numeral)
  also have "filter (\<lambda>i. i = n) [0 ..< 25] = [n]"
    using n by (simp add: filter_eq_upt del: upt_rec_numeral)
  finally show ?thesis
    by (simp add: r_def)
qed

text \<open>
  C4. With the grid size 5, the target index of every round lies in \<open>[0, 25)\<close>, exactly one
  of the 25 cells has \<open>isTarget\<close> set, that cell carries the target colour and every other
  cell carries the base colour.
\<close>

theorem one_target_cell:
  assumes "unitDraws rnd"
  shows "GRID_SIZE = 5
       \<and> 0 \<le> targetIndex (generateColors level d rnd)
       \<and> targetIndex (generateColors level d rnd) < int (GRID_SIZE * GRID_SIZE)
       \<and> length (grid (generateColors level d rnd)) = 25
       \<and> length (filter isTarget (grid (generateColors level d rnd))) = 1
       \<and> (\<forall>i<25. grid (generateColors level d rnd) ! i =
             (if int i = targetIndex (generateColors level d rnd)
              then \<lparr>color = target (diffInfo (generateColors level d rnd)), isTarget = True\<rparr>
              else \<lparr>color = base (diffInfo (generateColors level d rnd)), isTarget = False\<rparr>))"
  using targetIndex_range [OF assms, of level d] grid_targets [OF assms, of level d]
  by (simp add: GRID_SIZE_def grid_length grid_nth)

theorem one_target_cell_witness:
  "unitDraws (\<lambda>_. 1 / 2)
   \<and> targetIndex (generateColors 1 NORMAL (\<lambda>_. 1 / 2)) = 12
   \<and> length (filter isTarget (grid (generateColors 1 NORMAL (\<lambda>_. 1 / 2)))) = 1
   \<and> grid (generateColors 1 NORMAL (\<lambda>_. 1 / 2)) ! 12 =
        \<lparr>color = \<lparr>hsl_h = 180, hsl_s = 45, hsl_l = 50\<rparr>, isTarget = True\<rparr>
   \<and> grid (generateColors 1 NORMAL (\<lambda>_. 1 / 2)) ! 0 =
        \<lparr>color = \<lparr>hsl_h = 180, hsl_s = 60, hsl_l = 50\<rparr>, isTarget = False\<rparr>"
proof -
  have u: "unitDraws (\<lambda>_. 1 / 2)"
    by (simp add: unitDraws_def)
  have ti: "targetIndex (generateColors 1 NORMAL (\<lambda>_. 1 / 2)) = 12"
    by (simp add: targetIndex_generateColors)
  have b: "base (diffInfo (generateColors 1 NORMAL (\<lambda>_. 1 / 2))) = \<lparr>hsl_h = 180, hsl_s = 60, hsl_l = 50\<rparr>"
    by (simp add: base_generateColors)
  have t: "target (diffInfo (generateColors 1 NORMAL (\<lambda>_. 1 / 2))) = \<lparr>hsl_h = 180, hsl_s = 45, hsl_l = 50\<rparr>"
    by (simp add: target_generateColors b shiftChannel_def currentDiff_def baseDiff_def decay_def)
  have c: "\<forall>i<25. grid (generateColors 1 NORMAL (\<lambda>_. 1 / 2)) ! i =
             (if int i = targetIndex (generateColors 1 NORMAL (\<lambda>_. 1 / 2))
              then \<lparr>color = target (diffInfo (generateColors 1 NORMAL (\<lambda>_. 1 / 2))), isTarget = True\<rparr>
              else \<lparr>color = base (diffInfo (generateColors 1 NORMAL (\<lambda>_. 1 / 2))), isTarget = False\<rparr>)"
    and f: "length (filter isTarget (grid (generateColors 1 NORMAL (\<lambda>_. 1 / 2)))) = 1"
    using one_target_cell [OF u, of 1 NORMAL] by blast+
  from c have "grid (generateColors 1 NORMAL (\<lambda>_. 1 / 2)) ! 12 =
        \<lparr>color = \<lparr>hsl_h = 180, hsl_s = 45, hsl_l = 50\<rparr>, isTarget = True\<rparr>"
    unfolding ti b t by simp
  moreover from c have "grid (generateColors 1 NORMAL (\<lambda>_. 1 / 2)) ! 0 =
        \<lparr>color = \<lparr>hsl_h = 180, hsl_s = 60, hsl_l = 50\<rparr>, isTarget = False\<rparr>"
    unfolding ti b t by simp
  ultimately show ?thesis
    using u ti f by simp
qed

lemma target_ranges:
  fixes level :: int and d :: Difficulty and rnd :: "nat \<Rightarrow> real"
  assumes u: "unitDraws rnd"
  shows "validHSL (target (diffInfo (generateColors level d rnd)))"
proof -
  define b where "b = base (diffInfo (generateColors level d rnd))"
  define cd where "cd = currentDiff level d"
  have cd: "1 \<le> cd"
    using currentDiff_ge_1 [of level d] by (simp add: cd_def)
  have bs: "0 \<le> hsl_h b" "hsl_h b \<le> 359" "40 \<le> hsl_s b" "hsl_s b \<le> 79"
           "30 \<le> hsl_l b" "hsl_l b \<le> 69"
    using base_ranges [OF u, of level d] by (simp_all add: b_def)
  have t: "target (diffInfo (generateColors level d rnd)) =
      (case shiftChannel (rnd 3) of
         Hue \<Rightarrow> b\<lparr>hsl_h := js_rem (hsl_h b + cd) 360\<rparr>
       | Saturation \<Rightarrow> b\<lparr>hsl_s := min 100 (max 0 (hsl_s b + (if rnd 4 > 1 / 2 then cd else - cd)))\<rparr>
       | Lightness \<Rightarrow> b\<lparr>hsl_l := min 100 (max 0 (hsl_l b + (if rnd 4 > 1 / 2 then cd else - cd)))\<rparr>)"
    unfolding b_def cd_def by (simp add: target_generateColors Let_def)
  have "js_rem (hsl_h b + cd) 360 = spec_mod (hsl_h b + cd) 360"
    using bs cd by (intro js_rem_nonneg) simp_all
  then have h: "0 \<le> js_rem (hsl_h b + cd) 360" "js_rem (hsl_h b + cd) 360 < 360"
    using spec_mod_range [of 360 "hsl_h b + cd"] by simp_all
  show ?thesis
  proof (cases "shiftChannel (rnd 3)")
    case Hue
    then show ?thesis
      using t h bs by (simp add: validHSL_def)
  next
    case Saturation
    then show ?thesis
      using t bs by (simp add: validHSL_def)
  next
    case Lightness
    then show ?thesis
      using t bs by (simp add: validHSL_def)
  qed
qed

lemma grid_colors:
  "c \<in> set (grid (generateColors level d rnd)) \<Longrightarrow>
     color c = base (diffInfo (generateColors level d rnd))
   \<or> color c = target (diffInfo (generateColors level d rnd))"
  by (auto simp add: grid_generateColors Let_def simp del: upt_rec_numeral)

text \<open>
  C7. For every sequence of draws the base colour has its hue in \<open>[0, 360)\<close>, its saturation
  in \<open>[40, 80]\<close> and its lightness in \<open>[30, 70]\<close>, and every colour of the round (base,
  target, and each cell of the grid) has its hue in \<open>[0, 360)\<close> and its saturation and
  lightness in \<open>[0, 100]\<close>.
\<close>

theorem colour_ranges:
  assumes "unitDraws rnd"
  shows "0 \<le> hsl_h (base (diffInfo (generateColors level d rnd)))
       \<and> hsl_h (base (diffInfo (generateColors level d rnd))) < 360
       \<and> 40 \<le> hsl_s (base (diffInfo (generateColors level d rnd)))
       \<and> hsl_s (base (diffInfo (generateColors level d rnd))) \<le> 80
       \<and> 30 \<le> hsl_l (base (diffInfo (generateColors level d rnd)))
       \<and> hsl_l (base (diffInfo (generateColors level d rnd))) \<le> 70
       \<and> validHSL (base (diffInfo (generateColors level d rnd)))
       \<and> validHSL (target (diffInfo (generateColors level d rnd)))
       \<and> (\<forall>c \<in> set (grid (generateColors level d rnd)). validHSL (color c))"
proof -
  have b: "0 \<le> hsl_h (base (diffInfo (generateColors level d rnd)))"
      "hsl_h (base (diffInfo (generateColors level d rnd))) \<le> 359"
      "40 \<le> hsl_s (base (diffInfo (generateColors level d rnd)))"
      "hsl_s (base (diffInfo (generateColors level d rnd))) \<le> 79"
      "30 \<le> hsl_l (base (diffInfo (generateColors level d rnd)))"
      "hsl_l (base (diffInfo (generateColors level d rnd))) \<le> 69"
    using base_ranges [OF assms, of level d] by simp_all
  then have vb: "validHSL (base (diffInfo (generateColors level d rnd)))"
    by (simp add: validHSL_def)
  have vt: "validHSL (target (diffInfo (generateColors level d rnd)))"
    by (rule target_ranges [OF assms])
  have "\<forall>c \<in> set (grid (generateColors level d rnd)). validHSL (color c)"
    using grid_colors [of _ level d rnd] vb vt by metis
  with b vb vt show ?thesis
    by simp
qed

theorem colour_ranges_witness:
  "unitDraws (\<lambda>_. 1 / 2)
   \<and> validHSL (base (diffInfo (generateColors 1 NORMAL (\<lambda>_. 1 / 2))))
   \<and> validHSL (target (diffInfo (generateColors 1 NORMAL (\<lambda>_. 1 / 2))))
   \<and> hsl_s (base (diffInfo (generateColors 1 NORMAL (\<lambda>_. 1 / 2)))) = 60"
proof -
  have u: "unitDraws (\<lambda>_. 1 / 2)"
    by (simp add: unitDraws_def)
  show ?thesis
    using u colour_ranges [OF u, of 1 NORMAL] by (simp add: base_generateColors)
qed

text \<open>
  C10. The target colour of a round differs from the base colour in at most one channel:
  the two channels that the shift draw does not select have the same values in both.
\<close>

theorem one_channel_shifted:
  "(hsl_s (target (diffInfo (generateColors level d rnd))) = hsl_s (base (diffInfo (generateColors level d rnd)))
     \<and> hsl_l (target (diffInfo (generateColors level d rnd))) = hsl_l (base (diffInfo (generateColors level d rnd)))
   \<or> hsl_h (target (diffInfo (generateColors level d rnd))) = hsl_h (base (diffInfo (generateColors level d rnd)))
     \<and> hsl_l (target (diffInfo (generateColors level d rnd))) = hsl_l (base (diffInfo (generateColors level d rnd)))
   \<or> hsl_h (target (diffInfo (generateColors level d rnd))) = hsl_h (base (diffInfo (generateColors level d rnd)))
     \<and> hsl_s (target (diffInfo (generateColors level d rnd))) = hsl_s (base (diffInfo (generateColors level d rnd))))
 \<and> (shiftChannel (rnd 3) = Hue \<longrightarrow>
       hsl_s (target (diffInfo (generateColors level d rnd))) = hsl_s (base (diffInfo (generateColors level d rnd)))
     \<and> hsl_l (target (diffInfo (generateColors level d rnd))) = hsl_l (base (diffInfo (generateColors level d rnd))))
 \<and> (shiftChannel (rnd 3) = Saturation \<longrightarrow>
       hsl_h (target (diffInfo (generateColors level d rnd))) = hsl_h (base (diffInfo (generateColors level d rnd)))
     \<and> hsl_l (target (diffInfo (generateColors level d rnd))) = hsl_l (base (diffInfo (generateColors level d rnd))))
 \<and> (shiftChannel (rnd 3) = Lightness \<longrightarrow>
       hsl_h (target (diffInfo (generateColors level d rnd))) = hsl_h (base (diffInfo (generateColors level d rnd)))
     \<and> hsl_s (target (diffInfo (generateColors level d rnd))) = hsl_s (base (diffInfo (generateColors level d rnd))))"
  by (cases "shiftChannel (rnd 3)") (simp_all add: target_generateColors Let_def)

theorem one_channel_shifted_witness:
  "shiftChannel ((\<lambda>_. 1 / 2) (3::nat)) = Saturation
   \<and> hsl_h (target (diffInfo (generateColors 1 NORMAL (\<lambda>_. 1 / 2)))) = 180
   \<and> hsl_l (target (diffInfo (generateColors 1 NORMAL (\<lambda>_. 1 / 2)))) = 50"
proof -
  have c: "shiftChannel ((\<lambda>_. 1 / 2) (3::nat)) = Saturation"
    by (simp add: shiftChannel_def)
  show ?thesis
    using c one_channel_shifted [where rnd = "\<lambda>_. 1 / 2" and level = 1 and d = NORMAL] by (simp add: base_generateColors)
qed

text \<open>
  C6. A hue shift gives the target hue \<open>(h + appliedDelta) mod 360\<close>, always by addition; a
  saturation or lightness shift gives \<open>clamp(base + appliedDelta, 0, 100)\<close> or
  \<open>clamp(base - appliedDelta, 0, 100)\<close>, the sign decided by one more draw, and the value is
  clamped, not reflected. In particular the run \<open>sat78\<close> at level 1 of \<open>EASY\<close> has saturation
  78, applied difference 25 and the sign "add", and its target saturation is 100.
\<close>

theorem shift_policy:
  assumes "unitDraws rnd"
  shows "(shiftChannel (rnd 3) = Hue \<longrightarrow>
            hsl_h (target (diffInfo (generateColors level d rnd))) =
              spec_mod (hsl_h (base (diffInfo (generateColors level d rnd))) + currentDiff level d) 360)
       \<and> (shiftChannel (rnd 3) = Saturation \<longrightarrow>
            hsl_s (target (diffInfo (generateColors level d rnd))) =
              (if rnd 4 > 1 / 2
               then spec_clamp (hsl_s (base (diffInfo (generateColors level d rnd))) + currentDiff level d) 0 100
               else spec_clamp (hsl_s (base (diffInfo (generateColors level d rnd))) - currentDiff level d) 0 100))
       \<and> (shiftChannel (rnd 3) = Lightness \<longrightarrow>
            hsl_l (target (diffInfo (generateColors level d rnd))) =
              (if rnd 4 > 1 / 2
               then spec_clamp (hsl_l (base (diffInfo (generateColors level d rnd))) + currentDiff level d) 0 100
               else spec_clamp (hsl_l (base (diffInfo (generateColors level d rnd))) - currentDiff level d) 0 100))
       \<and> hsl_s (base (diffInfo (generateColors 1 EASY sat78))) = 78
       \<and> currentDiff 1 EASY = 25
       \<and> shiftChannel (sat78 3) = Saturation \<and> sat78 4 > 1 / 2
       \<and> hsl_s (target (diffInfo (generateColors 1 EASY sat78))) = 100"
proof -
  have "0 \<le> hsl_h (base (diffInfo (generateColors level d rnd))) + currentDiff level d"
    using base_ranges(1) [OF assms, of level d] currentDiff_ge_1 [of level d] by simp
  then have hue: "js_rem (hsl_h (base (diffInfo (generateColors level d rnd))) + currentDiff level d) 360 =
      spec_mod (hsl_h (base (diffInfo (generateColors level d rnd))) + currentDiff level d) 360"
    by (intro js_rem_nonneg) simp_all
  have general: "(shiftChannel (rnd 3) = Hue \<longrightarrow>
            hsl_h (target (diffInfo (generateColors level d rnd))) =
              spec_mod (hsl_h (base (diffInfo (generateColors level d rnd))) + currentDiff level d) 360)
       \<and> (shiftChannel (rnd 3) = Saturation \<longrightarrow>
            hsl_s (target (diffInfo (generateColors level d rnd))) =
              (if rnd 4 > 1 / 2
               then spec_clamp (hsl_s (base (diffInfo (generateColors level d rnd))) + currentDiff level d) 0 100
               else spec_clamp (hsl_s (base (diffInfo (generateColors level d rnd))) - currentDiff level d) 0 100))
       \<and> (shiftChannel (rnd 3) = Lightness \<longrightarrow>
            hsl_l (target (diffInfo (generateColors level d rnd))) =
              (if rnd 4 > 1 / 2
               then spec_clamp (hsl_l (base (diffInfo (generateColors level d rnd))) + currentDiff level d) 0 100
               else spec_clamp (hsl_l (base (diffInfo (generateColors level d rnd))) - currentDiff level d) 0 100))"
    using hue by (cases "shiftChannel (rnd 3)") (simp_all add: target_generateColors Let_def clamp_code)
  have cd: "currentDiff 1 EASY = 25"
    by (simp add: currentDiff_def baseDiff_def decay_def)
  have b: "base (diffInfo (generateColors 1 EASY sat78)) = \<lparr>hsl_h = 180, hsl_s = 78, hsl_l = 50\<rparr>"
    by (simp add: base_generateColors sat78_def)
  have ch: "shiftChannel (sat78 3) = Saturation" "sat78 4 > 1 / 2"
    by (simp_all add: shiftChannel_def sat78_def)
  have draws: "sat78 3 = 1 / 2" "sat78 4 = 7 / 10"
    by (simp_all add: sat78_def)
  have t: "hsl_s (target (diffInfo (generateColors 1 EASY sat78))) = 100"
    by (simp add: target_generateColors Let_def b cd draws shiftChannel_def)
  from general cd b ch t show ?thesis
    by simp
qed

theorem shift_policy_witness:
  "unitDraws (\<lambda>_. 1 / 2) \<and> shiftChannel ((\<lambda>_. 1 / 2) (3::nat)) = Saturation
   \<and> hsl_s (target (diffInfo (generateColors 1 NORMAL (\<lambda>_. 1 / 2)))) = spec_clamp (60 - 15) 0 100"
proof -
  have u: "unitDraws (\<lambda>_. 1 / 2)"
    by (simp add: unitDraws_def)
  have c: "shiftChannel ((\<lambda>_. 1 / 2) (3::nat)) = Saturation"
    by (simp add: shiftChannel_def)
  have cd: "currentDiff 1 NORMAL = 15"
    by (simp add: currentDiff_def baseDiff_def decay_def)
  show ?thesis
    using u c shift_policy [OF u, of 1 NORMAL] by (simp add: base_generateColors cd)
qed

text \<open>
  C5, as stated, fails: the thresholds of the code are 0.33 and 0.66, not the thirds. The
  draws 0.66 and 0.9999 both select lightness and lie more than 1/3 apart; the draw 0
  selects hue but the draw 0.33, below 1/3, selects saturation.
\<close>

theorem equal_buckets_counterexample:
  "shiftChannel (66 / 100) = Lightness \<and> shiftChannel (9999 / 10000) = Lightness
   \<and> (1 / 3 :: real) < 9999 / 10000 - 66 / 100
   \<and> shiftChannel 0 = Hue \<and> shiftChannel (33 / 100) = Saturation \<and> (33 / 100 :: real) < 1 / 3
   \<and> base (diffInfo (generateColors 1 NORMAL (shiftDraw (33 / 100)))) = \<lparr>hsl_h = 180, hsl_s = 60, hsl_l = 50\<rparr>
   \<and> target (diffInfo (generateColors 1 NORMAL (shiftDraw (33 / 100)))) = \<lparr>hsl_h = 180, hsl_s = 45, hsl_l = 50\<rparr>
   \<and> target (diffInfo (generateColors 1 NORMAL (shiftDraw (66 / 100)))) = \<lparr>hsl_h = 180, hsl_s = 60, hsl_l = 35\<rparr>
   \<and> target (diffInfo (generateColors 1 NORMAL (shiftDraw (9999 / 10000)))) = \<lparr>hsl_h = 180, hsl_s = 60, hsl_l = 35\<rparr>"
proof -
  have cd: "currentDiff 1 NORMAL = 15"
    by (simp add: currentDiff_def baseDiff_def decay_def)
  have b: "base (diffInfo (generateColors 1 NORMAL (shiftDraw u))) = \<lparr>hsl_h = 180, hsl_s = 60, hsl_l = 50\<rparr>" for u
    by (simp add: base_generateColors shiftDraw_def)
  have "target (diffInfo (generateColors 1 NORMAL (shiftDraw (33 / 100)))) = \<lparr>hsl_h = 180, hsl_s = 45, hsl_l = 50\<rparr>"
    by (simp add: target_generateColors Let_def b cd) (simp add: shiftDraw_def shiftChannel_def)
  moreover have "target (diffInfo (generateColors 1 NORMAL (shiftDraw (66 / 100)))) = \<lparr>hsl_h = 180, hsl_s = 60, hsl_l = 35\<rparr>"
    by (simp add: target_generateColors Let_def b cd) (simp add: shiftDraw_def shiftChannel_def)
  moreover have "target (diffInfo (generateColors 1 NORMAL (shiftDraw (9999 / 10000)))) = \<lparr>hsl_h = 180, hsl_s = 60, hsl_l = 35\<rparr>"
    by (simp add: target_generateColors Let_def b cd) (simp add: shiftDraw_def shiftChannel_def)
  ultimately show ?thesis
    by (simp add: b) (simp add: shiftChannel_def)
qed

lemma shiftChannel_iff:
  "(shiftChannel u = Hue \<longleftrightarrow> u < 33 / 100)"
  "(shiftChannel u = Saturation \<longleftrightarrow> 33 / 100 \<le> u \<and> u < 66 / 100)"
  "(shiftChannel u = Lightness \<longleftrightarrow> 66 / 100 \<le> u)"
  by (simp_all add: shiftChannel_def)

lemma shifted_channel_changes:
  fixes level :: int and d :: Difficulty and rnd :: "nat \<Rightarrow> real"
  assumes lv: "1 \<le> level" and u: "unitDraws rnd"
  defines "b \<equiv> base (diffInfo (generateColors level d rnd))"
      and "t \<equiv> target (diffInfo (generateColors level d rnd))"
  shows "hsl_h t \<noteq> hsl_h b \<longleftrightarrow> shiftChannel (rnd 3) = Hue"
    and "hsl_s t \<noteq> hsl_s b \<longleftrightarrow> shiftChannel (rnd 3) = Saturation"
    and "hsl_l t \<noteq> hsl_l b \<longleftrightarrow> shiftChannel (rnd 3) = Lightness"
proof -
  have ne: "t \<noteq> b"
    unfolding t_def b_def by (rule target_differs [OF lv u])
  have frame: "shiftChannel (rnd 3) = Hue \<Longrightarrow> hsl_s t = hsl_s b \<and> hsl_l t = hsl_l b"
     "shiftChannel (rnd 3) = Saturation \<Longrightarrow> hsl_h t = hsl_h b \<and> hsl_l t = hsl_l b"
     "shiftChannel (rnd 3) = Lightness \<Longrightarrow> hsl_h t = hsl_h b \<and> hsl_s t = hsl_s b"
    unfolding t_def b_def by (simp_all add: target_generateColors Let_def)
  have some: "hsl_h t \<noteq> hsl_h b \<or> hsl_s t \<noteq> hsl_s b \<or> hsl_l t \<noteq> hsl_l b"
    using ne by (auto intro: HSL.equality)
  show "hsl_h t \<noteq> hsl_h b \<longleftrightarrow> shiftChannel (rnd 3) = Hue"
    using frame some by (cases "shiftChannel (rnd 3)") auto
  show "hsl_s t \<noteq> hsl_s b \<longleftrightarrow> shiftChannel (rnd 3) = Saturation"
    using frame some by (cases "shiftChannel (rnd 3)") auto
  show "hsl_l t \<noteq> hsl_l b \<longleftrightarrow> shiftChannel (rnd 3) = Lightness"
    using frame some by (cases "shiftChannel (rnd 3)") auto
qed

text \<open>
  C5, amended. The channel to shift is chosen from a single draw \<open>u\<close> in \<open>[0, 1)\<close> by the
  thresholds 0.33 and 0.66: hue for \<open>u < 0.33\<close>, saturation for \<open>0.33 \<le> u < 0.66\<close>,
  lightness for \<open>0.66 \<le> u\<close>; the buckets have the widths 0.33, 0.33 and 0.34. At every
  level of at least 1 the channel whose value changes is the one of the bucket.
\<close>

theorem channel_buckets:
  assumes "1 \<le> level" and "unitDraws rnd"
  shows "(hsl_h (target (diffInfo (generateColors level d rnd))) \<noteq> hsl_h (base (diffInfo (generateColors level d rnd)))
            \<longleftrightarrow> rnd 3 < 33 / 100)
       \<and> (hsl_s (target (diffInfo (generateColors level d rnd))) \<noteq> hsl_s (base (diffInfo (generateColors level d rnd)))
            \<longleftrightarrow> 33 / 100 \<le> rnd 3 \<and> rnd 3 < 66 / 100)
       \<and> (hsl_l (target (diffInfo (generateColors level d rnd))) \<noteq> hsl_l (base (diffInfo (generateColors level d rnd)))
            \<longleftrightarrow> 66 / 100 \<le> rnd 3)
       \<and> (shiftChannel (rnd 3) = Hue \<longleftrightarrow> rnd 3 < 33 / 100)
       \<and> (shiftChannel (rnd 3) = Saturation \<longleftrightarrow> 33 / 100 \<le> rnd 3 \<and> rnd 3 < 66 / 100)
       \<and> (shiftChannel (rnd 3) = Lightness \<longleftrightarrow> 66 / 100 \<le> rnd 3)"
  using shifted_channel_changes [OF assms, of d] shiftChannel_iff [of "rnd 3"] by simp

theorem channel_buckets_witness:
  "(1::int) \<le> 1 \<and> unitDraws (\<lambda>_. 1 / 2)
   \<and> hsl_s (target (diffInfo (generateColors 1 NORMAL (\<lambda>_. 1 / 2)))) \<noteq> hsl_s (base (diffInfo (generateColors 1 NORMAL (\<lambda>_. 1 / 2))))
   \<and> hsl_h (target (diffInfo (generateColors 1 NORMAL (\<lambda>_. 1 / 2)))) = hsl_h (base (diffInfo (generateColors 1 NORMAL (\<lambda>_. 1 / 2))))
   \<and> shiftChannel (1 / 2) = Saturation"
proof -
  have u: "unitDraws (\<lambda>_. 1 / 2)"
    by (simp add: unitDraws_def)
  show ?thesis
    using u channel_buckets [of 1 "\<lambda>_. 1 / 2" NORMAL] by simp
qed

lemma toFixed2_close:
  assumes "0 \<le> x"
  shows "\<bar>toFixed2 x - x\<bar> \<le> 1 / 200"
proof -
  define n where "n = real_of_int \<lfloor>x * 100 + 1 / 2\<rfloor>"
  have lo: "n \<le> x * 100 + 1 / 2" and hi: "x * 100 + 1 / 2 < n + 1"
    unfolding n_def by linarith+
  have eq: "toFixed2 x = n / 100"
    using assms by (simp add: toFixed2_def n_def)
  have "\<bar>n / 100 - x\<bar> \<le> 1 / 200"
    using lo hi by linarith
  then show ?thesis
    unfolding eq .
qed

text \<open>
  C8, as stated, fails: line 164 stores \<open>Number(currentDiff.toFixed(2))\<close>. At level 3 of
  \<open>NORMAL\<close> the colour is shifted by 13.5375 and the round records 13.54.
\<close>

theorem recorded_diff_counterexample:
  "diff (diffInfo (generateColors 3 NORMAL (\<lambda>_. 1 / 2))) = 1354 / 100
   \<and> currentDiff 3 NORMAL = 135375 / 10000
   \<and> max 1 (15 * (95 / 100) ^ 2) = (135375 / 10000 :: real)
   \<and> diff (diffInfo (generateColors 3 NORMAL (\<lambda>_. 1 / 2))) \<noteq> max 1 (15 * (95 / 100) ^ 2)
   \<and> hsl_s (base (diffInfo (generateColors 3 NORMAL (\<lambda>_. 1 / 2))))
      - hsl_s (target (diffInfo (generateColors 3 NORMAL (\<lambda>_. 1 / 2)))) = 135375 / 10000"
proof -
  have p: "(95 / 100 :: real) ^ 2 = 9025 / 10000"
    by (simp add: power2_eq_square)
  have cd: "currentDiff 3 NORMAL = 135375 / 10000"
    by (simp add: currentDiff_def baseDiff_def decay_def power2_eq_square)
  have d: "diff (diffInfo (generateColors 3 NORMAL (\<lambda>_. 1 / 2))) = 1354 / 100"
    by (simp add: diff_generateColors cd toFixed2_def)
  have b: "base (diffInfo (generateColors 3 NORMAL (\<lambda>_. 1 / 2))) = \<lparr>hsl_h = 180, hsl_s = 60, hsl_l = 50\<rparr>"
    by (simp add: base_generateColors)
  have t: "hsl_s (target (diffInfo (generateColors 3 NORMAL (\<lambda>_. 1 / 2)))) = 60 - 135375 / 10000"
    by (simp add: target_generateColors Let_def b cd shiftChannel_def)
  show ?thesis
    unfolding d cd b t p by simp
qed

text \<open>
  C8, amended. The value recorded in the round is the applied difference rounded to two
  decimals: the multiple of 0.01 nearest to \<open>max(1, baseDelta * decay^(level - 1))\<close>, at most
  0.005 away from it, and equal to it at level 1.
\<close>

theorem recorded_diff_rounded:
  "diff (diffInfo (generateColors level d rnd)) = toFixed2 (currentDiff level d)
   \<and> \<bar>diff (diffInfo (generateColors level d rnd)) - currentDiff level d\<bar> \<le> 1 / 200
   \<and> diff (diffInfo (generateColors level d rnd)) * 100
        = of_int \<lfloor>currentDiff level d * 100 + 1 / 2\<rfloor>
   \<and> diff (diffInfo (generateColors 1 d rnd)) = currentDiff 1 d"
proof -
  have nn: "0 \<le> currentDiff level d"
    using currentDiff_ge_1 [of level d] by simp
  have "\<bar>toFixed2 (currentDiff level d) - currentDiff level d\<bar> \<le> 1 / 200"
    by (rule toFixed2_close [OF nn])
  moreover have "toFixed2 (currentDiff level d) * 100 = of_int \<lfloor>currentDiff level d * 100 + 1 / 2\<rfloor>"
    using nn by (simp add: toFixed2_def)
  moreover have "toFixed2 (currentDiff 1 d) = currentDiff 1 d"
    by (cases d) (simp_all add: currentDiff_def baseDiff_def decay_def toFixed2_def)
  ultimately show ?thesis
    by (simp add: diff_generateColors)
qed

text \<open>
  C9, as stated, fails: at level 0 of \<open>NORMAL\<close> the call returns a round, with the applied
  difference \<open>15 / 0.95\<close>, recorded as 15.79, and no error.
\<close>

theorem no_error_counterexample:
  "generate 0 NORMAL (\<lambda>_. 1 / 2) \<noteq> Inl InvalidArgument
   \<and> generate 0 NORMAL (\<lambda>_. 1 / 2) = Inr (generateColors 0 NORMAL (\<lambda>_. 1 / 2))
   \<and> diffInfo (generateColors 0 NORMAL (\<lambda>_. 1 / 2)) =
        \<lparr>base = \<lparr>hsl_h = 180, hsl_s = 60, hsl_l = 50\<rparr>,
         target = \<lparr>hsl_h = 180, hsl_s = 840 / 19, hsl_l = 50\<rparr>,
         diff = 1579 / 100\<rparr>
   \<and> targetIndex (generateColors 0 NORMAL (\<lambda>_. 1 / 2)) = 12"
proof -
  have cd: "currentDiff 0 NORMAL = 300 / 19"
    by (simp add: currentDiff_def baseDiff_def decay_def)
  have di: "diffInfo (generateColors 0 NORMAL (\<lambda>_. 1 / 2)) =
        \<lparr>base = \<lparr>hsl_h = 180, hsl_s = 60, hsl_l = 50\<rparr>,
         target = \<lparr>hsl_h = 180, hsl_s = 840 / 19, hsl_l = 50\<rparr>,
         diff = 1579 / 100\<rparr>"
    by (simp add: generateColors_def Let_def cd toFixed2_def)
  have ti: "targetIndex (generateColors 0 NORMAL (\<lambda>_. 1 / 2)) = 12"
    by (simp add: targetIndex_generateColors)
  show ?thesis
    unfolding di ti by (simp add: generate_def)
qed

text \<open>
  C9, amended. For a level below 1 the generator signals no precondition failure: it has
  no check of its inputs and no error path, and it returns a round, with 25 cells, exactly
  one target cell, a target index in \<open>[0, 25)\<close> and a base colour in the documented ranges
  (none of which depends on the level). The type of the tier admits no unrecognised value.
\<close>

theorem out_of_domain_level_returns:
  assumes "level < 1" and "unitDraws rnd"
  shows "generate level d rnd \<noteq> Inl e
       \<and> (\<exists>r. generate level d rnd = Inr r
              \<and> length (grid r) = 25
              \<and> length (filter isTarget (grid r)) = 1
              \<and> 0 \<le> targetIndex r \<and> targetIndex r < 25
              \<and> validHSL (base (diffInfo r))
              \<and> 40 \<le> hsl_s (base (diffInfo r)) \<and> hsl_s (base (diffInfo r)) \<le> 80
              \<and> 30 \<le> hsl_l (base (diffInfo r)) \<and> hsl_l (base (diffInfo r)) \<le> 70)"
proof -
  have u: "unitDraws rnd"
    by (rule assms(2))
  have b: "0 \<le> hsl_h (base (diffInfo (generateColors level d rnd)))"
      "hsl_h (base (diffInfo (generateColors level d rnd))) \<le> 359"
      "40 \<le> hsl_s (base (diffInfo (generateColors level d rnd)))"
      "hsl_s (base (diffInfo (generateColors level d rnd))) \<le> 79"
      "30 \<le> hsl_l (base (diffInfo (generateColors level d rnd)))"
      "hsl_l (base (diffInfo (generateColors level d rnd))) \<le> 69"
    using base_ranges [OF u, of level d] by simp_all
  then have vb: "validHSL (base (diffInfo (generateColors level d rnd)))"
    by (simp add: validHSL_def)
  show ?thesis
    using b vb targetIndex_range [OF u, of level d] grid_targets [OF u, of level d]
    by (simp add: generate_def grid_length)
qed

theorem out_of_domain_level_returns_witness:
  "(0::int) < 1 \<and> unitDraws (\<lambda>_. 1 / 2)
   \<and> generate 0 NORMAL (\<lambda>_. 1 / 2) \<noteq> Inl InvalidArgument
   \<and> (\<exists>r. generate 0 NORMAL (\<lambda>_. 1 / 2) = Inr r
          \<and> length (grid r) = 25
          \<and> length (filter isTarget (grid r)) = 1
          \<and> 0 \<le> targetIndex r \<and> targetIndex r < 25
          \<and> validHSL (base (diffInfo r))
          \<and> 40 \<le> hsl_s (base (diffInfo r)) \<and> hsl_s (base (diffInfo r)) \<le> 80
          \<and> 30 \<le> hsl_l (base (diffInfo r)) \<and> hsl_l (base (diffInfo r)) \<le> 70)"
proof -
  have u: "unitDraws (\<lambda>_. 1 / 2)"
    by (simp add: unitDraws_def)
  have l: "(0::int) < 1"
    by simp
  show ?thesis
    using u l out_of_domain_level_returns [OF l u, of NORMAL InvalidArgument] by blast
qed

end
